theory Spec2Isabelle
  imports Complex_Main "HOL-Library.Sublist"
begin

section \<open>JavaScript values and the runtime's built-ins\<close>

text \<open>
  The pipeline of \<^verbatim>\<open>src/App.vue\<close> works on values that come out of \<^verbatim>\<open>JSON.parse\<close>,
  \<^verbatim>\<open>response.json()\<close> and \<^verbatim>\<open>response.text()\<close>. They are modelled by \<open>jsval\<close>. Strings
  are lists of code units (\<open>char\<close>, so code units below 256). An object is the list of its
  own properties, each key once; a number is a rational (every double is one, and
  \<open>-0\<close> is \<open>0\<close>, which is also falsy and prints the same).
\<close>

datatype jsval =
    JUndefined
  | JNull
  | JBool bool
  | JNum rat
  | JStr string
  | JArr "jsval list"
  | JObj "(string \<times> jsval) list"

text \<open>
  The built-ins of the runtime that the code calls and that are not part of the
  repository are parameters: \<open>json_parse\<close> is \<^verbatim>\<open>JSON.parse\<close> (\<open>None\<close> when it throws a
  SyntaxError), \<open>number_to_string\<close> the string conversion of a number,
  \<open>encodeURIComponent\<close> the function of that name, and \<open>type_error_message\<close> the
  message the engine gives a TypeError. The program can raise three: a property read on
  \<^verbatim>\<open>null\<close>, a value that cannot be converted to a primitive, and a call of something
  that is not a function.
\<close>

datatype type_error = NullProperty | NotPrimitive | NotFunction

record runtime =
  json_parse :: "string \<Rightarrow> jsval option"
  number_to_string :: "rat \<Rightarrow> string"
  encodeURIComponent :: "string \<Rightarrow> string"
  type_error_message :: "type_error \<Rightarrow> string"

definition dq :: char where
  "dq = CHR 0x22"

definition sq :: char where
  "sq = CHR 0x27"

definition backslash :: char where
  "backslash = CHR 0x5C"

definition nl :: string where
  "nl = [CHR 0x0A]"

text \<open>Truthiness, as \<^verbatim>\<open>!x\<close>, \<^verbatim>\<open>x || y\<close> and \<^verbatim>\<open>if (x)\<close> read it.\<close>

fun truthy :: "jsval \<Rightarrow> bool" where
  "truthy JUndefined = False"
| "truthy JNull = False"
| "truthy (JBool b) = b"
| "truthy (JNum r) = (r \<noteq> 0)"
| "truthy (JStr s) = (s \<noteq> [])"
| "truthy (JArr xs) = True"
| "truthy (JObj kvs) = True"

text \<open>\<^verbatim>\<open>x || y\<close>\<close>

definition js_or :: "jsval \<Rightarrow> jsval \<Rightarrow> jsval" where
  "js_or x y = (if truthy x then x else y)"

fun nullish :: "jsval \<Rightarrow> bool" where
  "nullish JUndefined = True"
| "nullish JNull = True"
| "nullish v = False"

text \<open>
  \<open>get_prop k v\<close> is \<^verbatim>\<open>v.k\<close> for a value \<open>v\<close> that is neither \<^verbatim>\<open>null\<close> nor
  \<^verbatim>\<open>undefined\<close>, and for the property names the program reads (\<^verbatim>\<open>choices\<close>,
  \<^verbatim>\<open>delta\<close>, \<^verbatim>\<open>content\<close>, \<^verbatim>\<open>finish_reason\<close>, \<^verbatim>\<open>message\<close>, \<^verbatim>\<open>data\<close>,
  \<^verbatim>\<open>title\<close>, \<^verbatim>\<open>url\<close>): none of them is a property of a string, a number, a boolean,
  an array or of \<^verbatim>\<open>Object.prototype\<close>, so only an object's own properties answer.
\<close>

fun get_prop :: "string \<Rightarrow> jsval \<Rightarrow> jsval" where
  "get_prop k (JObj kvs) = (case map_of kvs k of Some v \<Rightarrow> v | None \<Rightarrow> JUndefined)"
| "get_prop k v = JUndefined"

text \<open>\<^verbatim>\<open>v?.k\<close>\<close>

definition opt_prop :: "string \<Rightarrow> jsval \<Rightarrow> jsval" where
  "opt_prop k v = (if nullish v then JUndefined else get_prop k v)"

text \<open>
  \<^verbatim>\<open>v?.[0]\<close>: the first element of an array, the first code unit of a string, the
  property \<^verbatim>\<open>"0"\<close> of an object.
\<close>

fun opt_index0 :: "jsval \<Rightarrow> jsval" where
  "opt_index0 (JArr xs) = (case xs of [] \<Rightarrow> JUndefined | x # _ \<Rightarrow> x)"
| "opt_index0 (JStr s) = (case s of [] \<Rightarrow> JUndefined | c # _ \<Rightarrow> JStr [c])"
| "opt_index0 (JObj kvs) = (case map_of kvs ''0'' of Some v \<Rightarrow> v | None \<Rightarrow> JUndefined)"
| "opt_index0 v = JUndefined"

text \<open>
  String conversion, as \<^verbatim>\<open>+=\<close> on a string and a template literal do it; \<open>None\<close> is
  the TypeError of a value that cannot be converted to a primitive. An object converts
  through the \<^verbatim>\<open>toString\<close> and \<^verbatim>\<open>valueOf\<close> it has: the inherited \<^verbatim>\<open>toString\<close> gives
  \<^verbatim>\<open>[object Object]\<close>, the inherited \<^verbatim>\<open>valueOf\<close> gives the object back, and an own
  property is never a function. So an object with an own property \<^verbatim>\<open>toString\<close> cannot
  be converted, in either order of the two methods, and every other object can. An array
  joins its elements with commas, \<^verbatim>\<open>null\<close> and \<^verbatim>\<open>undefined\<close> elements as the empty
  string, and cannot be converted when one of its other elements cannot.
\<close>

fun join_comma :: "string list \<Rightarrow> string" where
  "join_comma [] = []"
| "join_comma [s] = s"
| "join_comma (s # t # rest) = s @ '','' @ join_comma (t # rest)"

fun to_string :: "runtime \<Rightarrow> jsval \<Rightarrow> string option" where
  "to_string rt JUndefined = Some ''undefined''"
| "to_string rt JNull = Some ''null''"
| "to_string rt (JBool b) = Some (if b then ''true'' else ''false'')"
| "to_string rt (JNum r) = Some (number_to_string rt r)"
| "to_string rt (JStr s) = Some s"
| "to_string rt (JArr xs) =
     map_option join_comma
       (those (map (\<lambda>x. if nullish x then Some [] else to_string rt x) xs))"
| "to_string rt (JObj kvs) =
     (case map_of kvs ''toString'' of
        None \<Rightarrow> Some ''[object Object]''
      | Some v \<Rightarrow> None)"

section \<open>The stream demultiplexer (\<^verbatim>\<open>streamAiResponse\<close>)\<close>

subsection \<open>The boundary scanner\<close>

text \<open>
  The \<^verbatim>\<open>for\<close> loop of lines 232-247. \<open>scan prev openBraces inString i cs\<close> is the loop at
  index \<open>i\<close>, with \<open>cs\<close> the buffer from \<open>i\<close> on and \<open>prev\<close> the character
  \<^verbatim>\<open>buffer[i - 1]\<close> (\<open>None\<close> when \<open>i = 0\<close>). The result is \<^verbatim>\<open>objectEndIndex\<close>, \<open>None\<close>
  for \<open>-1\<close>.
\<close>

fun scan :: "char option \<Rightarrow> int \<Rightarrow> bool \<Rightarrow> nat \<Rightarrow> string \<Rightarrow> nat option" where
  "scan prev openBraces inString i [] = None"
| "scan prev openBraces inString i (c # cs) =
     (let inString' =
            (if c = dq \<and> (prev = None \<or> prev \<noteq> Some backslash)
             then \<not> inString else inString)
      in if \<not> inString' then
           if c = CHR ''{'' then scan (Some c) (openBraces + 1) inString' (i + 1) cs
           else if c = CHR ''}'' then
             if openBraces - 1 = 0 then Some (i + 1)
             else scan (Some c) (openBraces - 1) inString' (i + 1) cs
           else scan (Some c) openBraces inString' (i + 1) cs
         else scan (Some c) openBraces inString' (i + 1) cs)"

definition find_object_end :: "string \<Rightarrow> nat option" where
  "find_object_end buffer = scan None 0 False 0 buffer"

subsection \<open>One extracted object\<close>

text \<open>
  The variables that outlive an iteration: \<open>assistantResponse\<close>; \<open>messageContent\<close>, the
  content of the open assistant message (\<^verbatim>\<open>messages.value[lastMessageIndex].content\<close>);
  and \<open>published\<close>, every value that content has been given, oldest first.
\<close>

record demux =
  assistantResponse :: string
  messageContent :: string
  published :: "string list"

definition publish :: "string \<Rightarrow> demux \<Rightarrow> demux" where
  "publish v s = s\<lparr>messageContent := v, published := published s @ [v]\<rparr>"

datatype 'a flow = Returned 'a | Continue 'a

definition first_choice :: "jsval \<Rightarrow> jsval" where
  "first_choice parsed = opt_index0 (get_prop ''choices'' parsed)"

definition delta_content :: "jsval \<Rightarrow> jsval" where
  "delta_content parsed =
     js_or (opt_prop ''content'' (opt_prop ''delta'' (first_choice parsed))) (JStr [])"

definition finish_reason_stop :: "jsval \<Rightarrow> bool" where
  "finish_reason_stop parsed \<longleftrightarrow>
     opt_prop ''finish_reason'' (first_choice parsed) = JStr ''stop''"

text \<open>
  The inner \<^verbatim>\<open>try\<close> of lines 255-267. A SyntaxError of \<^verbatim>\<open>JSON.parse\<close>, the
  TypeError of \<^verbatim>\<open>parsed.choices\<close> on \<^verbatim>\<open>null\<close> and the TypeError of \<^verbatim>\<open>+=\<close> on a
  content that cannot be converted are caught and logged at line 265: the state is
  unchanged and the test of line 262 is not reached. \<open>Returned\<close> is the \<^verbatim>\<open>return\<close> of
  line 263.
\<close>

definition process_object :: "runtime \<Rightarrow> string \<Rightarrow> demux \<Rightarrow> demux flow" where
  "process_object rt jsonStr s =
     (case json_parse rt jsonStr of
        None \<Rightarrow> Continue s
      | Some parsed \<Rightarrow>
          if nullish parsed then Continue s
          else
            (case to_string rt (delta_content parsed) of
               None \<Rightarrow> Continue s
             | Some text \<Rightarrow>
                 let s' = s\<lparr>assistantResponse := assistantResponse s @ text\<rparr>;
                     s'' = publish (assistantResponse s') s'
                 in if finish_reason_stop parsed then Returned s'' else Continue s''))"

subsection \<open>The extraction loop and the read loop\<close>

lemma scan_bounds:
  "scan prev ob ins i cs = Some e \<Longrightarrow> i < e \<and> e \<le> i + length cs"
proof (induction cs arbitrary: prev ob ins i)
  case Nil
  then show ?case by simp
next
  case (Cons c cs)
  then show ?case
    by (fastforce simp: Let_def split: if_splits)
qed

lemma find_object_end_bounds:
  "find_object_end buffer = Some e \<Longrightarrow> 0 < e \<and> e \<le> length buffer"
  using scan_bounds [of None 0 False 0 buffer e] by (simp add: find_object_end_def)

text \<open>
  The \<^verbatim>\<open>while (buffer.length > 0)\<close> loop of lines 225-268, on the buffer and the
  state. \<open>Stop\<close> is the \<^verbatim>\<open>return\<close> of line 263; \<open>More\<close> leaves the loop by its
  condition or by the \<^verbatim>\<open>break\<close> of line 250, with the buffer that remains.
\<close>

datatype extraction = Stop demux | More string demux

function extract_objects :: "runtime \<Rightarrow> string \<Rightarrow> demux \<Rightarrow> extraction" where
  "extract_objects rt buffer s =
     (if buffer = [] then More buffer s
      else
        case find_object_end buffer of
          None \<Rightarrow> More buffer s
        | Some objectEndIndex \<Rightarrow>
            (case process_object rt (take objectEndIndex buffer) s of
               Returned s' \<Rightarrow> Stop s'
             | Continue s' \<Rightarrow> extract_objects rt (drop objectEndIndex buffer) s'))"
  by pat_completeness auto
termination
proof (relation "measure (\<lambda>(rt, buffer, s). length buffer)")
  show "wf (measure (\<lambda>(rt, buffer, s). length buffer))" by simp
next
  fix rt :: runtime and buffer :: string and s s' :: demux and e :: nat
  assume "buffer \<noteq> []" and "find_object_end buffer = Some e"
  then have "0 < e" "0 < length buffer"
    using find_object_end_bounds by auto
  then show "((rt, drop e buffer, s'), (rt, buffer, s))
      \<in> measure (\<lambda>(rt, buffer, s). length buffer)"
    by simp
qed

declare extract_objects.simps [simp del]

text \<open>
  How the stream of the response ends: \<^verbatim>\<open>reader.read()\<close> reports \<^verbatim>\<open>done\<close>, or
  rejects with an error of the given message. The chunks are the texts that
  \<^verbatim>\<open>decoder.decode(value, { stream: true })\<close> returns, in order.
\<close>

datatype read_end = Done | ReadFailed string

datatype read_outcome = Completed demux | Threw string demux

text \<open>
  The \<^verbatim>\<open>while (true)\<close> loop of lines 216-269 over the chunks still to come.
\<close>

fun read_loop :: "runtime \<Rightarrow> string list \<Rightarrow> read_end \<Rightarrow> string \<Rightarrow> demux \<Rightarrow> read_outcome" where
  "read_loop rt [] Done buffer s = Completed s"
| "read_loop rt [] (ReadFailed msg) buffer s = Threw msg s"
| "read_loop rt (chunk # chunks) fin buffer s =
     (case extract_objects rt (buffer @ chunk) s of
        Stop s' \<Rightarrow> Completed s'
      | More buffer' s' \<Rightarrow> read_loop rt chunks fin buffer' s')"

text \<open>
  The reply of the chat-completion service to the streaming request: \<^verbatim>\<open>fetch\<close>
  rejects (or reading the error text does), the response is not ok or has no body (with
  the text of the response), or the body arrives in chunks.
\<close>

datatype ai_response =
    FetchRejected string
  | NotOk string
  | Body "string list" read_end

text \<open>
  The \<^verbatim>\<open>catch\<close> of lines 270-271: the note is appended to the content of the open
  message.
\<close>

definition error_note :: "string \<Rightarrow> string" where
  "error_note msg = nl @ nl @ ''**An error occurred:**'' @ nl @ nl @ msg"

definition catch_note :: "string \<Rightarrow> demux \<Rightarrow> demux" where
  "catch_note msg s = publish (messageContent s @ error_note msg) s"

text \<open>
  \<open>stream_run\<close> is \<^verbatim>\<open>streamAiResponse\<close> from the push of the empty assistant message
  (the first published value) to the end of the \<^verbatim>\<open>try\<close>/\<^verbatim>\<open>catch\<close>.
\<close>

definition initial_demux :: demux where
  "initial_demux = \<lparr>assistantResponse = [], messageContent = [], published = [[]]\<rparr>"

definition stream_run :: "runtime \<Rightarrow> ai_response \<Rightarrow> demux" where
  "stream_run rt response =
     (case response of
        FetchRejected msg \<Rightarrow> catch_note msg initial_demux
      | NotOk errorText \<Rightarrow>
          catch_note (''AI model request failed: '' @ errorText) initial_demux
      | Body chunks fin \<Rightarrow>
          (case read_loop rt chunks fin [] initial_demux of
             Completed s \<Rightarrow> s
           | Threw msg s \<Rightarrow> catch_note msg s))"

section \<open>The query optimizer (\<^verbatim>\<open>optimizeQuery\<close>)\<close>

text \<open>
  What \<^verbatim>\<open>robustFetch\<close> gives its caller: it throws an \<^verbatim>\<open>Error\<close> with a message, or
  returns the parsed JSON body or the text of the body (a string value).
\<close>

datatype fetch_result = Rejected string | Fulfilled jsval

text \<open>
  \<^verbatim>\<open>String.prototype.trim\<close>: the white space and line terminators among the code units
  below 256.
\<close>

definition is_white :: "char \<Rightarrow> bool" where
  "is_white c \<longleftrightarrow>
     c \<in> set [CHR 0x09, CHR 0x0A, CHR 0x0B, CHR 0x0C, CHR 0x0D, CHR 0x20, CHR 0xA0]"

definition js_trim :: "string \<Rightarrow> string" where
  "js_trim s = rev (dropWhile is_white (rev (dropWhile is_white s)))"

text \<open>\<^verbatim>\<open>optimized.replace(/["']/g, '')\<close>\<close>

definition remove_quotes :: "string \<Rightarrow> string" where
  "remove_quotes s = filter (\<lambda>c. c \<noteq> dq \<and> c \<noteq> sq) s"

text \<open>
  What a \<^verbatim>\<open>try\<close> block can throw: an \<^verbatim>\<open>Error\<close> with its message, or a TypeError of
  the engine.
\<close>

datatype thrown = Error string | TypeError type_error

definition message_of :: "runtime \<Rightarrow> thrown \<Rightarrow> string" where
  "message_of rt e =
     (case e of Error msg \<Rightarrow> msg | TypeError kind \<Rightarrow> type_error_message rt kind)"

text \<open>\<^verbatim>\<open>response?.choices?.[0]?.message?.content\<close>\<close>

definition completion_text :: "jsval \<Rightarrow> jsval" where
  "completion_text response =
     opt_prop ''content'' (opt_prop ''message'' (opt_index0 (opt_prop ''choices'' response)))"

text \<open>
  The \<^verbatim>\<open>try\<close> block of lines 87-102, with the reply of the chat-completion service to
  the request. A content that is \<^verbatim>\<open>null\<close> or \<^verbatim>\<open>undefined\<close> ends the optional chain
  with \<^verbatim>\<open>undefined\<close>; on any other value that is not a string the call of \<^verbatim>\<open>trim\<close>
  raises a TypeError.
\<close>

definition optimize_try :: "fetch_result \<Rightarrow> string \<Rightarrow> thrown + string" where
  "optimize_try reply query =
     (case reply of
        Rejected msg \<Rightarrow> Inl (Error msg)
      | Fulfilled response \<Rightarrow>
          if nullish (completion_text response) then Inr query
          else
            (case completion_text response of
               JStr text \<Rightarrow>
                 let optimized = js_trim text
                 in if optimized = [] then Inr query else Inr (remove_quotes optimized)
             | _ \<Rightarrow> Inl (TypeError NotFunction)))"

text \<open>
  Lines 84-107: the \<^verbatim>\<open>catch\<close> of line 103 answers whatever was thrown with the query.
  (The assignment to \<^verbatim>\<open>loadingStatus\<close> is overwritten by the caller and left out.)
\<close>

definition optimizeQuery :: "fetch_result \<Rightarrow> string \<Rightarrow> string" where
  "optimizeQuery reply query =
     (case optimize_try reply query of Inl e \<Rightarrow> query | Inr optimized \<Rightarrow> optimized)"

section \<open>The research pipeline (\<^verbatim>\<open>handleInitialSubmit\<close>)\<close>

definition JINA_SEARCH_API :: string where
  "JINA_SEARCH_API = ''https://s.jina.ai/''"

definition JINA_READER_API :: string where
  "JINA_READER_API = ''https://r.jina.ai/''"

datatype view = Initial | Chat

datatype role = User | Assistant

record message =
  role :: role
  content :: string

record app =
  view :: view
  initialQuery :: string
  followUpQuery :: string
  currentTopic :: string
  isLoading :: bool
  loadingStatus :: string
  sources :: "jsval list"
  messages :: "message list"

definition resetState :: "bool \<Rightarrow> app \<Rightarrow> app" where
  "resetState keepQuery st =
     st\<lparr>view := Initial,
        initialQuery := (if keepQuery then initialQuery st else []),
        followUpQuery := [],
        currentTopic := [],
        sources := [],
        messages := [],
        isLoading := False\<rparr>"

text \<open>
  The requests a run issues, in order, each with what identifies it: the query sent to
  the optimizer, the URL of a search or of a read, the message history of a chat
  request (role and content). The services answer by these.
\<close>

datatype request =
    OptimizeRequest string
  | SearchRequest string
  | ReadRequest string
  | ChatRequest "(string \<times> string) list"

record services =
  optimizer_reply :: "string \<Rightarrow> fetch_result"
  search_reply :: "string \<Rightarrow> fetch_result"
  reader_reply :: "nat \<Rightarrow> string \<Rightarrow> fetch_result"
  chat_reply :: "(string \<times> string) list \<Rightarrow> ai_response"

text \<open>
  The messages of the two errors thrown at lines 128 and 156 (the spec's
  \<open>NoSourcesError\<close> and \<open>NoReadableContentError\<close>).
\<close>

definition no_sources_message :: string where
  "no_sources_message = ''Could not find any relevant sources. Try rephrasing your query.''"

definition no_readable_content_message :: string where
  "no_readable_content_message =
     ''Found sources, but was unable to read their content. They may be inaccessible or in an unsupported format.''"

text \<open>Lines 127-130: the check of the search response and \<^verbatim>\<open>slice(0, 5)\<close>.\<close>

definition top_sources :: "jsval \<Rightarrow> thrown + jsval list" where
  "top_sources searchResponse =
     (case opt_prop ''data'' searchResponse of
        JArr ds \<Rightarrow> if ds = [] then Inl (Error no_sources_message) else Inr (take 5 ds)
      | _ \<Rightarrow> Inl (Error no_sources_message))"

definition search_url :: "runtime \<Rightarrow> services \<Rightarrow> string \<Rightarrow> string" where
  "search_url rt sv query =
     JINA_SEARCH_API @ encodeURIComponent rt (optimizeQuery (optimizer_reply sv query) query)"

text \<open>
  The template literal of line 135, evaluated in the \<^verbatim>\<open>map\<close> before the read of the
  source is issued: \<^verbatim>\<open>source.url\<close> raises a TypeError on \<^verbatim>\<open>null\<close>, and so does the
  conversion of a URL that cannot be converted.
\<close>

definition reader_url :: "runtime \<Rightarrow> jsval \<Rightarrow> thrown + string" where
  "reader_url rt source =
     (if nullish source then Inl (TypeError NullProperty)
      else
        case to_string rt (get_prop ''url'' source) of
          None \<Rightarrow> Inl (TypeError NotPrimitive)
        | Some url \<Rightarrow> Inr (JINA_READER_API @ url))"

text \<open>
  The \<^verbatim>\<open>map\<close> of lines 134-138 from \<open>index\<close> on: the read requests issued and, unless
  a source raised an error, the result each read settles with. An error ends the
  \<^verbatim>\<open>map\<close>: the reads of the sources before that one have been issued, the others never
  are.
\<close>

fun issue_reads ::
  "runtime \<Rightarrow> services \<Rightarrow> nat \<Rightarrow> jsval list \<Rightarrow> request list \<times> (thrown + fetch_result list)" where
  "issue_reads rt sv index [] = ([], Inr [])"
| "issue_reads rt sv index (source # rest) =
     (case reader_url rt source of
        Inl e \<Rightarrow> ([], Inl e)
      | Inr url \<Rightarrow>
          (case issue_reads rt sv (index + 1) rest of
             (reqs, Inl e) \<Rightarrow> (ReadRequest url # reqs, Inl e)
           | (reqs, Inr results) \<Rightarrow>
               (ReadRequest url # reqs, Inr (reader_reply sv index url # results))))"

text \<open>The decimal digits of \<^verbatim>\<open>index + 1\<close> in the template literal.\<close>

definition digit_char :: "nat \<Rightarrow> char" where
  "digit_char d = ''0123456789'' ! d"

fun show_nat :: "nat \<Rightarrow> string" where
  "show_nat n =
     (if n < 10 then [digit_char n] else show_nat (n div 10) @ [digit_char (n mod 10)])"

text \<open>
  Line 148: a labeled block is its label and its body (title, URL and content as
  strings). The template literal converts the title, the URL and the content in this
  order; \<open>None\<close> is the TypeError of one that cannot be converted.
\<close>

definition source_label :: "nat \<Rightarrow> string" where
  "source_label index = ''--- SOURCE ['' @ show_nat (index + 1) @ ''] ---''"

definition block_body :: "string \<Rightarrow> string \<Rightarrow> string \<Rightarrow> string" where
  "block_body title url text =
     nl @ ''Title: '' @ title @ nl @ ''URL: '' @ url @ nl @ nl @ text @ nl @ nl"

definition evidence_block :: "runtime \<Rightarrow> nat \<Rightarrow> jsval \<Rightarrow> jsval \<Rightarrow> string option" where
  "evidence_block rt index source content' =
     (case to_string rt (get_prop ''title'' source) of
        None \<Rightarrow> None
      | Some title \<Rightarrow>
          (case to_string rt (get_prop ''url'' source) of
             None \<Rightarrow> None
           | Some url \<Rightarrow>
               (case to_string rt content' of
                  None \<Rightarrow> None
                | Some text \<Rightarrow> Some (source_label index @ block_body title url text))))"

text \<open>Line 145.\<close>

definition read_content :: "jsval \<Rightarrow> jsval" where
  "read_content v =
     js_or (js_or (opt_prop ''content'' (opt_prop ''data'' v)) (opt_prop ''content'' v))
       (JStr [])"

text \<open>
  The \<^verbatim>\<open>forEach\<close> of lines 143-153 over the settled reads, each with its source
  (\<^verbatim>\<open>topSources[index]\<close>), on \<^verbatim>\<open>combinedContext\<close> and \<^verbatim>\<open>successfulReads\<close>. A
  TypeError of the template literal of line 148 ends the loop.
\<close>

fun combine_reads ::
  "runtime \<Rightarrow> nat \<Rightarrow> (jsval \<times> fetch_result) list \<Rightarrow> string \<times> nat \<Rightarrow>
     thrown + string \<times> nat" where
  "combine_reads rt index [] acc = Inr acc"
| "combine_reads rt index ((source, result) # rest) (combinedContext, successfulReads) =
     (case result of
        Fulfilled v \<Rightarrow>
          if truthy v then
            let content' = read_content v
            in if truthy content' then
                 (case evidence_block rt index source content' of
                    None \<Rightarrow> Inl (TypeError NotPrimitive)
                  | Some block \<Rightarrow>
                      combine_reads rt (index + 1) rest
                        (combinedContext @ block, successfulReads + 1))
               else combine_reads rt (index + 1) rest (combinedContext, successfulReads)
          else combine_reads rt (index + 1) rest (combinedContext, successfulReads)
      | Rejected reason \<Rightarrow>
          combine_reads rt (index + 1) rest (combinedContext, successfulReads))"

text \<open>
  Lines 119-157: what the \<^verbatim>\<open>try\<close> block does before the synthesis. \<open>g_result\<close> is the
  error thrown, or \<^verbatim>\<open>combinedContext\<close>.
\<close>

record gathered =
  g_requests :: "request list"
  g_sources :: "jsval list"
  g_result :: "thrown + string"

definition gather_evidence :: "runtime \<Rightarrow> services \<Rightarrow> string \<Rightarrow> gathered" where
  "gather_evidence rt sv query =
     (let searchUrl = search_url rt sv query;
          reqs = [OptimizeRequest query, SearchRequest searchUrl]
      in case search_reply sv searchUrl of
           Rejected msg \<Rightarrow>
             \<lparr>g_requests = reqs, g_sources = [], g_result = Inl (Error msg)\<rparr>
         | Fulfilled searchResponse \<Rightarrow>
             (case top_sources searchResponse of
                Inl e \<Rightarrow> \<lparr>g_requests = reqs, g_sources = [], g_result = Inl e\<rparr>
              | Inr topSources \<Rightarrow>
                  (case issue_reads rt sv 0 topSources of
                     (reads, Inl e) \<Rightarrow>
                       \<lparr>g_requests = reqs @ reads, g_sources = topSources, g_result = Inl e\<rparr>
                   | (reads, Inr readerResults) \<Rightarrow>
                       (case combine_reads rt 0 (zip topSources readerResults) ([], 0) of
                          Inl e \<Rightarrow>
                            \<lparr>g_requests = reqs @ reads, g_sources = topSources,
                             g_result = Inl e\<rparr>
                        | Inr (combinedContext, successfulReads) \<Rightarrow>
                            if successfulReads = 0 then
                              \<lparr>g_requests = reqs @ reads, g_sources = topSources,
                               g_result = Inl (Error no_readable_content_message)\<rparr>
                            else
                              \<lparr>g_requests = reqs @ reads, g_sources = topSources,
                               g_result = Inr combinedContext\<rparr>))))"

definition systemPrompt :: string where
  "systemPrompt = ''You are a neutral research assistant for OpenDossier. Your goal is to provide a comprehensive, evidence-based answer to the user's question based *only* on the provided source materials. Synthesize information from all sources, quote them with markdown, and cite them like [1], [2], etc. If the answer isn't in the sources, say so. Note: The source content may be truncated.''"

definition userPrompt :: "string \<Rightarrow> string \<Rightarrow> string" where
  "userPrompt query combinedContext =
     ''User's Question: '' @ [dq] @ query @ [dq] @ nl @ nl @
     ''--- PROVIDED SOURCES ---'' @ nl @ combinedContext"

definition research_error :: "string \<Rightarrow> message" where
  "research_error msg =
     \<lparr>role = Assistant,
      content = ''**An error occurred during research:**'' @ nl @ nl @ msg\<rparr>"

text \<open>
  Lines 109-171, from the state and the services to the state at the end and the
  requests issued. \<^verbatim>\<open>streamAiResponse\<close> pushes the assistant message and leaves it
  with the last content published; it catches its own failures.
\<close>

definition handleInitialSubmit :: "runtime \<Rightarrow> services \<Rightarrow> app \<Rightarrow> app \<times> request list" where
  "handleInitialSubmit rt sv st =
     (if js_trim (initialQuery st) = [] \<or> isLoading st then (st, [])
      else
        let query = initialQuery st;
            st1 = (resetState True st)
                    \<lparr>isLoading := True, view := Chat, currentTopic := query,
                     messages := [\<lparr>role = User, content = query\<rparr>]\<rparr>;
            g = gather_evidence rt sv query;
            st2 = st1\<lparr>sources := g_sources g\<rparr>
        in case g_result g of
             Inl e \<Rightarrow>
               (st2\<lparr>messages := messages st2 @ [research_error (message_of rt e)],
                    isLoading := False, loadingStatus := []\<rparr>,
                g_requests g)
           | Inr combinedContext \<Rightarrow>
               let history = [(''system'', systemPrompt),
                              (''user'', userPrompt query combinedContext)];
                   d = stream_run rt (chat_reply sv history)
               in (st2\<lparr>messages := messages st2 @
                          [\<lparr>role = Assistant, content = messageContent d\<rparr>],
                       isLoading := False, loadingStatus := []\<rparr>,
                   g_requests g @ [ChatRequest history]))"

section \<open>Sample inputs\<close>

text \<open>
  Objects of the streaming reply, as text and as \<^verbatim>\<open>JSON.parse\<close> reads them. The
  content of the second holds escaped quotes and braces. \<open>sample_parse\<close> agrees with
  \<^verbatim>\<open>JSON.parse\<close> on these texts, the only ones it is asked about below.
\<close>

definition hi_text :: string where
  \<open>hi_text = ''{"choices":[{"delta":{"content":"Hi"}}]}''\<close>

definition hi_object :: jsval where
  "hi_object =
     JObj [(''choices'', JArr [JObj [(''delta'', JObj [(''content'', JStr ''Hi'')])]])]"

definition quoted_text :: string where
  \<open>quoted_text =
     ''{"choices":[{"delta":{"content":"say '' @ [backslash, dq] @ ''hi'' @
     [backslash, dq] @ '' {now}"}}]}''\<close>

definition quoted_object :: jsval where
  "quoted_object =
     JObj [(''choices'', JArr [JObj [(''delta'',
       JObj [(''content'', JStr (''say '' @ [dq] @ ''hi'' @ [dq] @ '' {now}''))])]])]"

definition stop_text :: string where
  \<open>stop_text = ''{"choices":[{"delta":{"content":"!"},"finish_reason":"stop"}]}''\<close>

definition stop_object :: jsval where
  "stop_object =
     JObj [(''choices'', JArr [JObj [(''delta'', JObj [(''content'', JStr ''!'')]),
       (''finish_reason'', JStr ''stop'')]])]"

text \<open>
  A stop object whose delta content is an object with an own property \<^verbatim>\<open>toString\<close>.
\<close>

definition unconvertible_stop_text :: string where
  \<open>unconvertible_stop_text =
     ''{"choices":[{"delta":{"content":{"toString":1}},"finish_reason":"stop"}]}''\<close>

definition unconvertible_stop_object :: jsval where
  "unconvertible_stop_object =
     JObj [(''choices'', JArr [JObj [(''delta'',
         JObj [(''content'', JObj [(''toString'', JNum 1)])]),
       (''finish_reason'', JStr ''stop'')]])]"

definition sample_parse :: "string \<Rightarrow> jsval option" where
  "sample_parse t =
     (if t = hi_text then Some hi_object
      else if t = quoted_text then Some quoted_object
      else if t = stop_text then Some stop_object
      else if t = unconvertible_stop_text then Some unconvertible_stop_object
      else None)"

text \<open>
  A complete object whose content (\<^verbatim>\<open>C:\<close> and one backslash, which JSON writes as
  two) ends with an escaped backslash just before the closing quote.
\<close>

definition trailing_backslash_text :: string where
  \<open>trailing_backslash_text =
     ''{"choices":[{"delta":{"content":"C:'' @ [backslash, backslash] @ ''"}}]}''\<close>

text \<open>The state of the loop once \<open>hi_text\<close> has been processed.\<close>

definition after_hi :: demux where
  "after_hi = \<lparr>assistantResponse = ''Hi'', messageContent = ''Hi'', published = [[], ''Hi'']\<rparr>"

text \<open>
  Replies of the services. \<open>completion text\<close> is a chat completion whose first choice
  has the message content \<open>text\<close>; \<open>quoted_reply\<close> is the text
  \<^verbatim>\<open>"coffee's "health" effects"\<close>, with quotes around it and inside it.
\<close>

definition completion :: "string \<Rightarrow> jsval" where
  "completion text =
     JObj [(''choices'', JArr [JObj [(''message'', JObj [(''content'', JStr text)])]])]"

definition quoted_reply :: string where
  "quoted_reply = [dq] @ ''coffee's '' @ [dq] @ ''health'' @ [dq] @ '' effects'' @ [dq]"

definition source :: "string \<Rightarrow> string \<Rightarrow> jsval" where
  "source title url = JObj [(''title'', JStr title), (''url'', JStr url)]"

definition six_sources :: "jsval list" where
  "six_sources =
     [source ''A'' ''https://a.example'', source ''B'' ''https://b.example'',
      source ''C'' ''https://c.example'', source ''D'' ''https://d.example'',
      source ''E'' ''https://e.example'', source ''F'' ''https://f.example'']"

definition page :: "string \<Rightarrow> jsval" where
  "page text = JObj [(''data'', JObj [(''content'', JStr text)])]"

text \<open>
  \<^verbatim>\<open>encodeURIComponent\<close> on code units below 256: the unreserved characters stay, every
  other one becomes the percent-encoded bytes of its UTF-8 form.
\<close>

definition hex_digit :: "nat \<Rightarrow> char" where
  "hex_digit d = ''0123456789ABCDEF'' ! d"

definition percent :: "nat \<Rightarrow> string" where
  "percent b = [CHR ''%'', hex_digit (b div 16), hex_digit (b mod 16)]"

definition unreserved :: "char \<Rightarrow> bool" where
  "unreserved c \<longleftrightarrow>
     c \<in> set (''ABCDEFGHIJKLMNOPQRSTUVWXYZabcdefghijklmnopqrstuvwxyz0123456789-_.!~*()'' @ [sq])"

definition sample_encode :: "string \<Rightarrow> string" where
  "sample_encode s =
     concat (map (\<lambda>c.
       if unreserved c then [c]
       else if (of_char c :: nat) < 128 then percent (of_char c)
       else percent (192 + of_char c div 64) @ percent (128 + of_char c mod 64)) s)"

text \<open>
  A runtime for the sample runs, with the messages one engine gives the TypeErrors. No
  sample run converts a number to a string.
\<close>

definition sample_runtime :: runtime where
  "sample_runtime =
     \<lparr>json_parse = sample_parse,
      number_to_string = (\<lambda>r. ''0''),
      encodeURIComponent = sample_encode,
      type_error_message = (\<lambda>kind. case kind of
          NullProperty \<Rightarrow> ''Cannot read properties of null''
        | NotPrimitive \<Rightarrow> ''Cannot convert object to primitive value''
        | NotFunction \<Rightarrow> ''trim is not a function'')\<rparr>"

text \<open>
  Services for three runs. In all of them the optimizer answers with a query. The search
  finds six sources, or none; the reads of the second and fourth source fail and the
  others give a page, or the first read gives a page with an empty content and all the
  others fail.
\<close>

definition found_services :: services where
  "found_services =
     \<lparr>optimizer_reply = (\<lambda>query. Fulfilled (completion ''coffee health effects'')),
      search_reply = (\<lambda>url. Fulfilled (JObj [(''data'', JArr six_sources)])),
      reader_reply = (\<lambda>index url.
        if index = 1 \<or> index = 3 then Rejected ''Network error or failed request: timeout''
        else Fulfilled (page (''page of '' @ url))),
      chat_reply = (\<lambda>history. Body [hi_text, stop_text] Done)\<rparr>"

definition empty_services :: services where
  "empty_services = found_services\<lparr>search_reply := (\<lambda>url. Fulfilled (JObj [(''data'', JArr [])]))\<rparr>"

definition unreadable_services :: services where
  "unreadable_services =
     found_services\<lparr>reader_reply := (\<lambda>index url.
        if index = 0 then Fulfilled (page [])
        else Rejected ''Network error or failed request: timeout'')\<rparr>"

text \<open>
  Search results that are not all sources with a string title and a string URL: five
  whose third has an object with an own \<^verbatim>\<open>toString\<close> as title; three whose second is
  \<^verbatim>\<open>null\<close>; two whose second has such an object as URL.
\<close>

definition odd_title_sources :: "jsval list" where
  "odd_title_sources =
     [source ''A'' ''https://a.example'', source ''B'' ''https://b.example'',
      JObj [(''title'', JObj [(''toString'', JStr ''x'')]), (''url'', JStr ''https://c.example'')],
      source ''D'' ''https://d.example'', source ''E'' ''https://e.example'']"

definition odd_title_services :: services where
  "odd_title_services =
     found_services\<lparr>search_reply :=
       (\<lambda>url. Fulfilled (JObj [(''data'', JArr odd_title_sources)]))\<rparr>"

definition null_source_services :: services where
  "null_source_services =
     unreadable_services\<lparr>search_reply :=
       (\<lambda>url. Fulfilled (JObj [(''data'', JArr
          [source ''A'' ''https://a.example'', JNull, source ''C'' ''https://c.example''])]))\<rparr>"

definition odd_url_services :: services where
  "odd_url_services =
     unreadable_services\<lparr>search_reply :=
       (\<lambda>url. Fulfilled (JObj [(''data'', JArr
          [source ''A'' ''https://a.example'',
           JObj [(''title'', JStr ''B''), (''url'', JObj [(''toString'', JNum 1)])]])]))\<rparr>"

definition fresh_app :: "string \<Rightarrow> app" where
  "fresh_app query =
     \<lparr>view = Initial, initialQuery = query, followUpQuery = [], currentTopic = [],
      isLoading = False, loadingStatus = [], sources = [], messages = []\<rparr>"

section \<open>Properties of the scanner and the demultiplexer\<close>

lemma scan_append:
  "scan prev ob ins i cs = Some e \<Longrightarrow> scan prev ob ins i (cs @ ds) = Some e"
proof (induction cs arbitrary: prev ob ins i)
  case Nil
  then show ?case by simp
next
  case (Cons c cs)
  then show ?case
    by (auto simp: Let_def dq_def split: if_splits)
qed

lemma find_object_end_append:
  "find_object_end b = Some e \<Longrightarrow> find_object_end (b @ c) = Some e"
  by (simp add: find_object_end_def scan_append)

text \<open>
  Text that arrives after a pass of the extraction loop: the pass over the longer buffer
  is the pass over the shorter one, followed by a pass over what that one left and the
  new text.
\<close>

lemma extract_objects_append:
  "extract_objects rt (b @ c) s =
     (case extract_objects rt b s of
        Stop s' \<Rightarrow> Stop s'
      | More b' s' \<Rightarrow> extract_objects rt (b' @ c) s')"
proof (induction rt b s rule: extract_objects.induct)
  case (1 rt buffer s)
  show ?case
  proof (cases "buffer = []")
    case True
    then show ?thesis by (simp add: extract_objects.simps [of rt "[]"])
  next
    case nonempty: False
    show ?thesis
    proof (cases "find_object_end buffer")
      case None
      then show ?thesis by (simp add: extract_objects.simps [of rt buffer])
    next
      case (Some e)
      then have le: "e \<le> length buffer" and fe: "find_object_end (buffer @ c) = Some e"
        using find_object_end_bounds find_object_end_append by auto
      show ?thesis
      proof (cases "process_object rt (take e buffer) s")
        case (Returned s')
        with Some fe le nonempty show ?thesis
          by (simp add: extract_objects.simps [of rt buffer] extract_objects.simps [of rt "buffer @ c"])
      next
        case (Continue s')
        with Some fe le nonempty "1.IH" [OF nonempty Some Continue] show ?thesis
          by (simp add: extract_objects.simps [of rt buffer] extract_objects.simps [of rt "buffer @ c"])
      qed
    qed
  qed
qed

text \<open>A buffer the extraction loop has left holds no complete object.\<close>

definition drained :: "string \<Rightarrow> bool" where
  "drained buffer \<longleftrightarrow> buffer = [] \<or> find_object_end buffer = None"

lemma extract_objects_drained:
  "extract_objects rt b s = More b' s' \<Longrightarrow> drained b'"
proof (induction rt b s rule: extract_objects.induct)
  case (1 rt buffer s)
  then show ?case
    by (subst (asm) (2) extract_objects.simps)
      (auto simp: drained_def split: if_splits option.splits flow.splits)
qed

lemma drained_extract:
  "drained b \<Longrightarrow> extract_objects rt b s = More b s"
  by (auto simp: drained_def extract_objects.simps [of rt b])

lemma read_loop_concat:
  "drained b \<Longrightarrow> read_loop rt chunks fin b s = read_loop rt [concat chunks] fin b s"
proof (induction chunks arbitrary: b s)
  case Nil
  then show ?case by (simp add: drained_extract)
next
  case (Cons c cs)
  show ?case
  proof (cases "extract_objects rt (b @ c) s")
    case (Stop s')
    then show ?thesis
      by (simp add: extract_objects_append [of rt "b @ c" "concat cs", simplified])
  next
    case (More b' s')
    then have "drained b'" by (rule extract_objects_drained)
    from Cons.IH [OF this] More show ?thesis
      by (simp add: extract_objects_append [of rt "b @ c" "concat cs", simplified])
  qed
qed

lemma stream_run_concat:
  "stream_run rt (Body chunks fin) = stream_run rt (Body [concat chunks] fin)"
  using read_loop_concat [of "[]" rt chunks fin initial_demux]
  by (simp add: stream_run_def drained_def)

text \<open>
  C1. Whatever the chunks are (any texts, so any split of a sequence of JSON objects: in
  the middle of a string, between a backslash and the character it escapes, one character
  at a time), feeding them one by one leaves the assistant message with the same content
  as feeding their concatenation as one chunk.
\<close>

theorem chunking_invariance:
  "messageContent (stream_run rt (Body chunks Done)) =
   messageContent (stream_run rt (Body [concat chunks] Done))"
  by (simp add: stream_run_concat [of rt chunks Done])

text \<open>
  Two objects in three chunks, the first cut between a backslash and the quote it
  escapes, the second cut inside a key.
\<close>

theorem chunking_invariance_witness:
  "messageContent (stream_run sample_runtime
      (Body [take 38 quoted_text, drop 38 quoted_text @ take 10 stop_text,
             drop 10 stop_text] Done)) =
   messageContent (stream_run sample_runtime
      (Body [concat [take 38 quoted_text, drop 38 quoted_text @ take 10 stop_text,
             drop 10 stop_text]] Done)) \<and>
   messageContent (stream_run sample_runtime
      (Body [take 38 quoted_text, drop 38 quoted_text @ take 10 stop_text,
             drop 10 stop_text] Done)) = ''say '' @ [dq] @ ''hi'' @ [dq] @ '' {now}!''"
proof -
  have "messageContent (stream_run sample_runtime
      (Body [take 38 quoted_text, drop 38 quoted_text @ take 10 stop_text,
             drop 10 stop_text] Done)) = ''say '' @ [dq] @ ''hi'' @ [dq] @ '' {now}!''"
    by code_simp
  then show ?thesis
    using chunking_invariance [of sample_runtime
        "[take 38 quoted_text, drop 38 quoted_text @ take 10 stop_text, drop 10 stop_text]"]
    by simp
qed

subsection \<open>The stop signal\<close>

lemma stop_not_nullish: "finish_reason_stop parsed \<Longrightarrow> \<not> nullish parsed"
  by (cases parsed) (simp_all add: finish_reason_stop_def first_choice_def opt_prop_def)

lemma process_object_stop:
  assumes "json_parse rt jsonStr = Some parsed" and "finish_reason_stop parsed"
    and "to_string rt (delta_content parsed) = Some text"
  shows "process_object rt jsonStr s =
     Returned (publish (assistantResponse s @ text)
       (s\<lparr>assistantResponse := assistantResponse s @ text\<rparr>))"
  using assms stop_not_nullish [OF assms(2)] by (simp add: process_object_def Let_def)

lemma extract_objects_stop:
  assumes "find_object_end buffer = Some e"
    and "json_parse rt (take e buffer) = Some parsed"
    and "finish_reason_stop parsed"
    and "to_string rt (delta_content parsed) = Some text"
  shows "extract_objects rt buffer s =
     Stop (publish (assistantResponse s @ text)
       (s\<lparr>assistantResponse := assistantResponse s @ text\<rparr>))"
proof -
  have "buffer \<noteq> []"
    using find_object_end_bounds [OF assms(1)] by auto
  then show ?thesis
    using assms(1) process_object_stop [OF assms(2,3,4)]
    by (simp add: extract_objects.simps [of rt buffer])
qed

text \<open>
  C7, as stated, fails. The object \<open>unconvertible_stop_text\<close> parses, and its first
  choice has the finish reason \<^verbatim>\<open>stop\<close>; but its delta content cannot be converted to
  a string, the \<^verbatim>\<open>+=\<close> of line 258 raises a TypeError, and the \<^verbatim>\<open>catch\<close> of line 265
  discards the object before the test of line 262. So processing goes on: the object
  that follows is processed, and a failure of the read that follows is written as an
  error note.
\<close>

theorem stop_halts_stream_counterexample:
  "find_object_end unconvertible_stop_text = Some (length unconvertible_stop_text) \<and>
   json_parse sample_runtime unconvertible_stop_text = Some unconvertible_stop_object \<and>
   finish_reason_stop unconvertible_stop_object \<and>
   messageContent (stream_run sample_runtime (Body [unconvertible_stop_text] Done)) = [] \<and>
   messageContent (stream_run sample_runtime (Body [unconvertible_stop_text, hi_text] Done)) =
     ''Hi'' \<and>
   messageContent (stream_run sample_runtime
     (Body [unconvertible_stop_text] (ReadFailed ''connection lost''))) =
     error_note ''connection lost''"
  by code_simp

text \<open>
  C7, amended. Let the text of the stream be some complete objects that the loop
  consumes without returning (\<open>before\<close>), then an object whose first choice has the
  finish reason \<^verbatim>\<open>stop\<close> and whose delta content converts to a string (as an absent
  content and every string do), then anything
  (\<open>trailing\<close>). However the text is cut into chunks and however the stream ends after
  them (also by a failure of the read), \<^verbatim>\<open>streamAiResponse\<close> ends as it does on the
  stream that stops cleanly right after the stop object: the trailing text is never
  processed, no error note is written, and the content is the one accumulated up to and
  including the stop object.
\<close>

theorem stop_halts_stream:
  assumes "extract_objects rt before initial_demux = More [] s"
    and "find_object_end object = Some (length object)"
    and "json_parse rt object = Some parsed"
    and "finish_reason_stop parsed"
    and "to_string rt (delta_content parsed) = Some text"
    and "concat chunks = before @ object @ trailing"
  shows "stream_run rt (Body chunks fin) = stream_run rt (Body [before @ object] Done) \<and>
     messageContent (stream_run rt (Body chunks fin)) = assistantResponse s @ text"
proof -
  let ?s' = "publish (assistantResponse s @ text)
       (s\<lparr>assistantResponse := assistantResponse s @ text\<rparr>)"
  have stop: "extract_objects rt (object @ rest) s = Stop ?s'" for rest
    using extract_objects_stop [of "object @ rest" "length object" rt parsed "text" s]
      find_object_end_append [OF assms(2), of rest] assms(3,4,5)
    by simp
  have all: "extract_objects rt (before @ object @ rest) initial_demux = Stop ?s'" for rest
    using extract_objects_append [of rt before "object @ rest" initial_demux] assms(1) stop [of rest]
    by simp
  have "stream_run rt (Body chunks fin) = stream_run rt (Body [concat chunks] fin)"
    by (rule stream_run_concat)
  also have "\<dots> = ?s'"
    using all [of trailing] assms(6) by (simp add: stream_run_def)
  finally have "stream_run rt (Body chunks fin) = ?s'" .
  moreover have "stream_run rt (Body [before @ object] Done) = ?s'"
    using all [of "[]"] by (simp add: stream_run_def)
  ultimately show ?thesis
    by (simp add: publish_def)
qed

text \<open>
  The stop object after \<open>hi_text\<close>, followed by one more object and a failing read that
  are never looked at.
\<close>

theorem stop_halts_stream_witness:
  "extract_objects sample_runtime hi_text initial_demux = More [] after_hi \<and>
   find_object_end stop_text = Some (length stop_text) \<and>
   json_parse sample_runtime stop_text = Some stop_object \<and>
   finish_reason_stop stop_object \<and>
   to_string sample_runtime (delta_content stop_object) = Some ''!'' \<and>
   concat [take 30 hi_text, drop 30 hi_text @ stop_text @ take 7 hi_text, drop 7 hi_text] =
     hi_text @ stop_text @ hi_text \<and>
   stream_run sample_runtime
     (Body [take 30 hi_text, drop 30 hi_text @ stop_text @ take 7 hi_text, drop 7 hi_text]
        (ReadFailed ''connection lost'')) =
     stream_run sample_runtime (Body [hi_text @ stop_text] Done) \<and>
   messageContent (stream_run sample_runtime
     (Body [take 30 hi_text, drop 30 hi_text @ stop_text @ take 7 hi_text, drop 7 hi_text]
        (ReadFailed ''connection lost''))) = ''Hi!''"
proof -
  have h1: "extract_objects sample_runtime hi_text initial_demux = More [] after_hi"
    by code_simp
  have h2: "find_object_end stop_text = Some (length stop_text)"
    by code_simp
  have h3: "json_parse sample_runtime stop_text = Some stop_object"
    by code_simp
  have h4: "finish_reason_stop stop_object"
    by code_simp
  have h5: "to_string sample_runtime (delta_content stop_object) = Some ''!''"
    by code_simp
  have h6: "concat [take 30 hi_text, drop 30 hi_text @ stop_text @ take 7 hi_text,
      drop 7 hi_text] = hi_text @ stop_text @ hi_text"
    by simp
  have v: "assistantResponse after_hi @ ''!'' = ''Hi!''"
    by code_simp
  note r = stop_halts_stream [OF h1 h2 h3 h4 h5 h6, of "ReadFailed ''connection lost''",
      unfolded v]
  show ?thesis
    by (intro conjI h1 h2 h3 h4 h5 h6 r [THEN conjunct1] r [THEN conjunct2])
qed



subsection \<open>The escape rule of the scanner\<close>

text \<open>
  C10. A quote whose preceding buffer character is a backslash never toggles
  \<^verbatim>\<open>inString\<close>, in whatever state the scanner is; in particular, inside a string, an
  escaped backslash followed by the closing quote leaves the scanner inside the string.
  So for the complete object \<open>trailing_backslash_text\<close> the scanner reports no object
  end, and the extraction loop leaves the buffer as it is.
\<close>

theorem quote_after_backslash_is_escaped:
  "scan (Some backslash) ob ins i (dq # cs) = scan (Some dq) ob ins (i + 1) cs \<and>
   scan prev ob' True j (backslash # backslash # dq # cs') =
     scan (Some dq) ob' True (j + 1 + 1 + 1) cs' \<and>
   find_object_end trailing_backslash_text = None \<and>
   extract_objects rt trailing_backslash_text s = More trailing_backslash_text s"
proof -
  have none: "find_object_end trailing_backslash_text = None"
    by code_simp
  then have "extract_objects rt trailing_backslash_text s = More trailing_backslash_text s"
    by (simp add: drained_extract drained_def)
  with none show ?thesis
    by (simp add: dq_def backslash_def)
qed

theorem quote_after_backslash_is_escaped_witness:
  "scan (Some backslash) 1 True 5 (dq # ''}'') = scan (Some dq) 1 True (5 + 1) ''}'' \<and>
   scan (Some CHR ''x'') 1 True 4 (backslash # backslash # dq # ''}'') =
     scan (Some dq) 1 True (4 + 1 + 1 + 1) ''}'' \<and>
   scan (Some CHR ''x'') 1 True 4 (backslash # backslash # dq # ''}'') = None \<and>
   find_object_end trailing_backslash_text = None \<and>
   extract_objects sample_runtime trailing_backslash_text initial_demux =
     More trailing_backslash_text initial_demux"
proof -
  have "scan (Some CHR ''x'') 1 True 4 (backslash # backslash # dq # ''}'') = None"
    by code_simp
  then show ?thesis
    using quote_after_backslash_is_escaped
      [of 1 True 5 "''}''" "Some CHR ''x''" 1 4 "''}''" sample_runtime initial_demux]
    by simp
qed

subsection \<open>Published content\<close>

text \<open>
  The invariant of the loops: the content of the open message is the last value
  published and equals \<^verbatim>\<open>assistantResponse\<close>, and each published value extends the
  one before.
\<close>

definition coherent :: "demux \<Rightarrow> bool" where
  "coherent s \<longleftrightarrow>
     published s \<noteq> [] \<and> last (published s) = messageContent s \<and>
     messageContent s = assistantResponse s \<and> successively prefix (published s)"

lemma coherent_initial: "coherent initial_demux"
  by (simp add: coherent_def initial_demux_def)

lemma coherent_process_object:
  assumes "coherent s"
  shows "process_object rt jsonStr s = Returned s' \<Longrightarrow> coherent s'"
    and "process_object rt jsonStr s = Continue s' \<Longrightarrow> coherent s'"
  using assms
  by (auto simp: process_object_def Let_def publish_def coherent_def successively_append_iff
      split: option.splits if_splits)

lemma coherent_extract_objects:
  "coherent s \<Longrightarrow> extract_objects rt b s = Stop s' \<or> extract_objects rt b s = More b' s'
     \<Longrightarrow> coherent s'"
proof (induction rt b s rule: extract_objects.induct)
  case (1 rt buffer s)
  from "1.prems" show ?case
    by (subst (asm) (1 2) extract_objects.simps)
      (auto split: if_splits option.splits flow.splits
        dest: coherent_process_object intro: "1.IH")
qed

lemma coherent_read_loop:
  "coherent s \<Longrightarrow> read_loop rt chunks fin b s = Completed s' \<or>
     read_loop rt chunks fin b s = Threw msg s' \<Longrightarrow> coherent s'"
proof (induction chunks arbitrary: b s)
  case Nil
  then show ?case by (cases fin) auto
next
  case (Cons c cs)
  then show ?case
    by (auto split: extraction.splits dest: coherent_extract_objects)
qed

lemma coherent_catch_note:
  "coherent s \<Longrightarrow> successively prefix (published (catch_note msg s))"
  by (simp add: catch_note_def publish_def coherent_def successively_append_iff)

lemma read_loop_failed:
  "read_loop rt chunks (ReadFailed msg) b s = Threw m s' \<Longrightarrow>
     m = msg \<and> read_loop rt chunks Done b s = Completed s'"
  by (induction chunks arbitrary: b s) (auto split: extraction.splits)

text \<open>
  C8. Each value published as the content of the open assistant message has the value
  published before it as a prefix, whatever the reply is. And when the read of the
  stream fails, the state at the failure is the one the same chunks give on a stream
  that ends cleanly, and the content becomes that state's content followed by the error
  note: nothing accumulated is discarded or replaced.
\<close>

theorem content_grows_monotonically:
  "successively prefix (published (stream_run rt response)) \<and>
   (read_loop rt chunks (ReadFailed msg) [] initial_demux = Threw msg s \<longrightarrow>
      s = stream_run rt (Body chunks Done) \<and>
      messageContent (stream_run rt (Body chunks (ReadFailed msg))) =
        messageContent s @ error_note msg)"
proof
  show "successively prefix (published (stream_run rt response))"
  proof (cases response)
    case (FetchRejected m)
    then show ?thesis
      by (simp add: stream_run_def coherent_catch_note coherent_initial)
  next
    case (NotOk errorText)
    then show ?thesis
      by (simp add: stream_run_def coherent_catch_note coherent_initial)
  next
    case (Body cs fin)
    show ?thesis
    proof (cases "read_loop rt cs fin [] initial_demux")
      case (Completed s')
      then have "coherent s'"
        using coherent_read_loop [OF coherent_initial] by blast
      with Body Completed show ?thesis
        by (simp add: stream_run_def coherent_def)
    next
      case (Threw m s')
      then have "coherent s'"
        using coherent_read_loop [OF coherent_initial] by blast
      with Body Threw show ?thesis
        by (simp add: stream_run_def coherent_catch_note)
    qed
  qed
next
  show "read_loop rt chunks (ReadFailed msg) [] initial_demux = Threw msg s \<longrightarrow>
      s = stream_run rt (Body chunks Done) \<and>
      messageContent (stream_run rt (Body chunks (ReadFailed msg))) =
        messageContent s @ error_note msg"
    using read_loop_failed [of rt chunks msg "[]" initial_demux msg s]
    by (auto simp: stream_run_def catch_note_def publish_def)
qed

theorem content_grows_monotonically_witness:
  "successively prefix (published (stream_run sample_runtime
      (Body [hi_text, take 10 quoted_text] (ReadFailed ''connection lost'')))) \<and>
   read_loop sample_runtime [hi_text, take 10 quoted_text] (ReadFailed ''connection lost'')
      [] initial_demux = Threw ''connection lost'' after_hi \<and>
   after_hi = stream_run sample_runtime (Body [hi_text, take 10 quoted_text] Done) \<and>
   messageContent (stream_run sample_runtime
      (Body [hi_text, take 10 quoted_text] (ReadFailed ''connection lost''))) =
     messageContent after_hi @ error_note ''connection lost'' \<and>
   published (stream_run sample_runtime
      (Body [hi_text, take 10 quoted_text] (ReadFailed ''connection lost''))) =
     [[], ''Hi'', ''Hi'' @ error_note ''connection lost'']"
proof -
  have h: "read_loop sample_runtime [hi_text, take 10 quoted_text]
      (ReadFailed ''connection lost'') [] initial_demux = Threw ''connection lost'' after_hi"
    by code_simp
  have p: "published (stream_run sample_runtime
      (Body [hi_text, take 10 quoted_text] (ReadFailed ''connection lost''))) =
     [[], ''Hi'', ''Hi'' @ error_note ''connection lost'']"
    by code_simp
  note r = content_grows_monotonically [of sample_runtime
      "Body [hi_text, take 10 quoted_text] (ReadFailed ''connection lost'')"
      "[hi_text, take 10 quoted_text]" "''connection lost''" after_hi]
  note r2 = r [THEN conjunct2, THEN mp, OF h]
  show ?thesis
    by (intro conjI h p r [THEN conjunct1] r2 [THEN conjunct1] r2 [THEN conjunct2])
qed

section \<open>Properties of the query optimizer\<close>

text \<open>
  The words of claim C3, as a function: only the quote characters around the text are
  trimmed, those inside stay.
\<close>

definition is_quote :: "char \<Rightarrow> bool" where
  "is_quote c \<longleftrightarrow> c = dq \<or> c = sq"

definition trim_surrounding_quotes :: "string \<Rightarrow> string" where
  "trim_surrounding_quotes s = rev (dropWhile is_quote (rev (dropWhile is_quote s)))"

text \<open>
  C3, as stated, fails: on the completion \<open>quoted_reply\<close> the optimizer returns the text
  without any of its quotes, not the text with only the surrounding quotes trimmed.
\<close>

theorem optimizer_trims_only_surrounding_quotes_counterexample:
  "completion_text (completion quoted_reply) = JStr quoted_reply \<and>
   optimizeQuery (Fulfilled (completion quoted_reply)) ''is coffee healthy?'' =
     ''coffees health effects'' \<and>
   trim_surrounding_quotes quoted_reply =
     ''coffee's '' @ [dq] @ ''health'' @ [dq] @ '' effects'' \<and>
   optimizeQuery (Fulfilled (completion quoted_reply)) ''is coffee healthy?'' \<noteq>
     trim_surrounding_quotes quoted_reply"
  by code_simp

text \<open>
  C3, amended. When the first completion's message content is a string whose trimmed
  form (surrounding white space removed) is not empty, the optimizer returns that
  trimmed text with every double quote and every single quote removed, those inside the
  text too, and the other characters in their order.
\<close>

theorem optimizer_removes_every_quote:
  assumes "completion_text response = JStr text" and "js_trim text \<noteq> []"
  shows "optimizeQuery (Fulfilled response) query =
       filter (\<lambda>c. c \<noteq> dq \<and> c \<noteq> sq) (js_trim text) \<and>
     dq \<notin> set (optimizeQuery (Fulfilled response) query) \<and>
     sq \<notin> set (optimizeQuery (Fulfilled response) query)"
  using assms by (simp add: optimizeQuery_def optimize_try_def remove_quotes_def Let_def)

theorem optimizer_removes_every_quote_witness:
  "completion_text (completion quoted_reply) = JStr quoted_reply \<and>
   js_trim quoted_reply \<noteq> [] \<and>
   optimizeQuery (Fulfilled (completion quoted_reply)) ''is coffee healthy?'' =
     filter (\<lambda>c. c \<noteq> dq \<and> c \<noteq> sq) (js_trim quoted_reply) \<and>
   dq \<notin> set (optimizeQuery (Fulfilled (completion quoted_reply)) ''is coffee healthy?'') \<and>
   sq \<notin> set (optimizeQuery (Fulfilled (completion quoted_reply)) ''is coffee healthy?'') \<and>
   filter (\<lambda>c. c \<noteq> dq \<and> c \<noteq> sq) (js_trim quoted_reply) = ''coffees health effects''"
proof -
  have h1: "completion_text (completion quoted_reply) = JStr quoted_reply"
    by code_simp
  have h2: "js_trim quoted_reply \<noteq> []"
    by code_simp
  have v: "filter (\<lambda>c. c \<noteq> dq \<and> c \<noteq> sq) (js_trim quoted_reply) = ''coffees health effects''"
    by code_simp
  note r = optimizer_removes_every_quote [OF h1 h2, of "''is coffee healthy?''"]
  show ?thesis
    by (intro conjI h1 h2 v r [THEN conjunct1] r [THEN conjunct2, THEN conjunct1]
        r [THEN conjunct2, THEN conjunct2])
qed

text \<open>
  C4. The optimizer returns the query it was given when the request fails, when
  anything is thrown in its \<^verbatim>\<open>try\<close> block, when the completion text is absent
  (\<^verbatim>\<open>null\<close> or \<^verbatim>\<open>undefined\<close> somewhere on the way to it), and when the text is empty
  once trimmed. It returns a string in every case: no failure reaches the caller.
\<close>

theorem optimizer_falls_back:
  "optimizeQuery (Rejected msg) query = query \<and>
   (optimize_try reply query = Inl e \<longrightarrow> optimizeQuery reply query = query) \<and>
   (nullish (completion_text response) \<longrightarrow> optimizeQuery (Fulfilled response) query = query) \<and>
   (completion_text response' = JStr text \<and> js_trim text = [] \<longrightarrow>
      optimizeQuery (Fulfilled response') query = query)"
  by (auto simp: optimizeQuery_def optimize_try_def Let_def)

text \<open>
  A rejected request; a content that is a number (a TypeError at \<^verbatim>\<open>trim\<close>); a reply
  that is plain text; a content of two spaces.
\<close>

theorem optimizer_falls_back_witness:
  "optimizeQuery (Rejected ''Network error or failed request: timeout'') ''Is coffee healthy?'' =
     ''Is coffee healthy?'' \<and>
   optimize_try (Fulfilled (JObj [(''choices'', JArr [JObj [(''message'',
       JObj [(''content'', JNum 5)])]])])) ''Is coffee healthy?'' = Inl (TypeError NotFunction) \<and>
   optimizeQuery (Fulfilled (JObj [(''choices'', JArr [JObj [(''message'',
       JObj [(''content'', JNum 5)])]])])) ''Is coffee healthy?'' = ''Is coffee healthy?'' \<and>
   nullish (completion_text (JStr ''Service unavailable'')) \<and>
   optimizeQuery (Fulfilled (JStr ''Service unavailable'')) ''Is coffee healthy?'' =
     ''Is coffee healthy?'' \<and>
   completion_text (completion ''  '') = JStr ''  '' \<and> js_trim ''  '' = [] \<and>
   optimizeQuery (Fulfilled (completion ''  '')) ''Is coffee healthy?'' = ''Is coffee healthy?''"
proof -
  have h1: "optimize_try (Fulfilled (JObj [(''choices'', JArr [JObj [(''message'',
       JObj [(''content'', JNum 5)])]])])) ''Is coffee healthy?'' = Inl (TypeError NotFunction)"
    by code_simp
  have h2: "nullish (completion_text (JStr ''Service unavailable''))"
    by code_simp
  have h3: "completion_text (completion ''  '') = JStr ''  '' \<and> js_trim ''  '' = []"
    by code_simp
  note r = optimizer_falls_back [of "''Network error or failed request: timeout''"
      "''Is coffee healthy?''"
      "Fulfilled (JObj [(''choices'', JArr [JObj [(''message'',
         JObj [(''content'', JNum 5)])]])])"
      "TypeError NotFunction" "JStr ''Service unavailable''" "completion ''  ''" "''  ''"]
  show ?thesis
    by (intro conjI h1 h2 h3 [THEN conjunct1] h3 [THEN conjunct2] r [THEN conjunct1]
        r [THEN conjunct2, THEN conjunct1, THEN mp, OF h1]
        r [THEN conjunct2, THEN conjunct2, THEN conjunct1, THEN mp, OF h2]
        r [THEN conjunct2, THEN conjunct2, THEN conjunct2, THEN mp, OF h3])
qed

section \<open>Properties of the research pipeline\<close>

lemma truthy_read_content: "truthy (read_content v) \<Longrightarrow> truthy v"
  by (cases v) (auto simp: read_content_def js_or_def opt_prop_def split: if_splits)

lemma combine_reads_unusable:
  "\<forall>(source, result) \<in> set prs. \<forall>v. result = Fulfilled v \<longrightarrow> \<not> truthy (read_content v)
     \<Longrightarrow> combine_reads rt index prs acc = Inr acc"
proof (induction prs arbitrary: index acc)
  case Nil
  then show ?case by simp
next
  case (Cons pr prs)
  obtain source result where pr: "pr = (source, result)" by (cases pr)
  obtain ctx n where acc: "acc = (ctx, n)" by (cases acc)
  from Cons show ?case
    by (auto simp: pr acc Let_def split: fetch_result.splits)
qed

lemma issue_reads_all:
  "map (reader_url rt) srcs = map Inr urls \<Longrightarrow>
     issue_reads rt sv index srcs =
       (map ReadRequest urls,
        Inr (map (\<lambda>(k, url). reader_reply sv k url) (enumerate index urls)))"
proof (induction srcs arbitrary: urls index)
  case Nil
  then show ?case by simp
next
  case (Cons source srcs)
  then obtain url rest where urls: "urls = url # rest"
    and url: "reader_url rt source = Inr url"
    and rest: "map (reader_url rt) srcs = map Inr rest"
    by (cases urls) auto
  show ?case
    using Cons.IH [OF rest, of "index + 1"] by (simp add: urls url)
qed

text \<open>
  C2, as stated, fails. The search response yields five sources; the reads of the
  second and fourth fail and the reads of the first, third and fifth give a non-empty
  content. But the title of the third source is an object that cannot be converted to a
  string: the template literal of line 148 raises a TypeError, there is no evidence
  text, and the run ends with the error message and without a chat request.
\<close>

theorem evidence_keeps_ordinals_counterexample:
  "search_reply odd_title_services
     (search_url sample_runtime odd_title_services ''Is coffee healthy?'') =
     Fulfilled (JObj [(''data'', JArr odd_title_sources)]) \<and>
   length odd_title_sources = 5 \<and>
   issue_reads sample_runtime odd_title_services 0 odd_title_sources =
     ([ReadRequest ''https://r.jina.ai/https://a.example'',
       ReadRequest ''https://r.jina.ai/https://b.example'',
       ReadRequest ''https://r.jina.ai/https://c.example'',
       ReadRequest ''https://r.jina.ai/https://d.example'',
       ReadRequest ''https://r.jina.ai/https://e.example''],
      Inr [Fulfilled (page ''page of https://r.jina.ai/https://a.example''),
           Rejected ''Network error or failed request: timeout'',
           Fulfilled (page ''page of https://r.jina.ai/https://c.example''),
           Rejected ''Network error or failed request: timeout'',
           Fulfilled (page ''page of https://r.jina.ai/https://e.example'')]) \<and>
   read_content (page ''page of https://r.jina.ai/https://c.example'') =
     JStr ''page of https://r.jina.ai/https://c.example'' \<and>
   g_result (gather_evidence sample_runtime odd_title_services ''Is coffee healthy?'') =
     Inl (TypeError NotPrimitive) \<and>
   messages (fst (handleInitialSubmit sample_runtime odd_title_services
       (fresh_app ''Is coffee healthy?''))) =
     [\<lparr>role = User, content = ''Is coffee healthy?''\<rparr>,
      research_error ''Cannot convert object to primitive value''] \<and>
   snd (handleInitialSubmit sample_runtime odd_title_services (fresh_app ''Is coffee healthy?'')) =
     [OptimizeRequest ''Is coffee healthy?'',
      SearchRequest ''https://s.jina.ai/coffee%20health%20effects'',
      ReadRequest ''https://r.jina.ai/https://a.example'',
      ReadRequest ''https://r.jina.ai/https://b.example'',
      ReadRequest ''https://r.jina.ai/https://c.example'',
      ReadRequest ''https://r.jina.ai/https://d.example'',
      ReadRequest ''https://r.jina.ai/https://e.example'']"
  by code_simp

text \<open>
  C2, amended. When the search response yields five sources, none of them \<^verbatim>\<open>null\<close> and
  each with a URL that converts to a string, the reads of the second and fourth fail,
  the reads of the first, third and fifth give a non-empty content, and the titles and
  contents of these three convert to strings (as every string does), the evidence text
  is exactly three labeled blocks, in order, with the labels 1, 3 and 5 of the search
  results: the ordinals are kept, not renumbered.
\<close>

theorem evidence_keeps_ordinals:
  assumes "search_reply sv (search_url rt sv query) = Fulfilled searchResponse"
    and "opt_prop ''data'' searchResponse = JArr ds"
    and "take 5 ds = [s1, s2, s3, s4, s5]"
    and "\<not> list_ex nullish [s1, s2, s3, s4, s5]"
    and "to_string rt (get_prop ''url'' s1) = Some u1"
    and "to_string rt (get_prop ''url'' s2) = Some u2"
    and "to_string rt (get_prop ''url'' s3) = Some u3"
    and "to_string rt (get_prop ''url'' s4) = Some u4"
    and "to_string rt (get_prop ''url'' s5) = Some u5"
    and "reader_reply sv 0 (JINA_READER_API @ u1) = Fulfilled v1"
    and "reader_reply sv 1 (JINA_READER_API @ u2) = Rejected m2"
    and "reader_reply sv 2 (JINA_READER_API @ u3) = Fulfilled v3"
    and "reader_reply sv 3 (JINA_READER_API @ u4) = Rejected m4"
    and "reader_reply sv 4 (JINA_READER_API @ u5) = Fulfilled v5"
    and "truthy (read_content v1)" and "truthy (read_content v3)" and "truthy (read_content v5)"
    and "to_string rt (get_prop ''title'' s1) = Some t1"
    and "to_string rt (get_prop ''title'' s3) = Some t3"
    and "to_string rt (get_prop ''title'' s5) = Some t5"
    and "to_string rt (read_content v1) = Some c1"
    and "to_string rt (read_content v3) = Some c3"
    and "to_string rt (read_content v5) = Some c5"
  shows "g_result (gather_evidence rt sv query) =
     Inr (''--- SOURCE [1] ---'' @ block_body t1 u1 c1 @
          ''--- SOURCE [3] ---'' @ block_body t3 u3 c3 @
          ''--- SOURCE [5] ---'' @ block_body t5 u5 c5)"
proof -
  have ds: "ds \<noteq> []"
    using assms(3) by auto
  have tops: "top_sources searchResponse = Inr [s1, s2, s3, s4, s5]"
    using assms(2,3) ds by (simp add: top_sources_def)
  have urls: "map (reader_url rt) [s1, s2, s3, s4, s5] =
      map Inr [JINA_READER_API @ u1, JINA_READER_API @ u2, JINA_READER_API @ u3,
        JINA_READER_API @ u4, JINA_READER_API @ u5]"
    using assms(4-9) by (simp add: reader_url_def)
  have reads: "issue_reads rt sv 0 [s1, s2, s3, s4, s5] =
      (map ReadRequest [JINA_READER_API @ u1, JINA_READER_API @ u2, JINA_READER_API @ u3,
         JINA_READER_API @ u4, JINA_READER_API @ u5],
       Inr [Fulfilled v1, Rejected m2, Fulfilled v3, Rejected m4, Fulfilled v5])"
    unfolding issue_reads_all [OF urls] using assms(10-14) by (simp add: eval_nat_numeral)
  note usable = truthy_read_content [OF assms(15)] truthy_read_content [OF assms(16)]
    truthy_read_content [OF assms(17)]
  have combine: "combine_reads rt 0
      [(s1, Fulfilled v1), (s2, Rejected m2), (s3, Fulfilled v3), (s4, Rejected m4),
       (s5, Fulfilled v5)]
      ([], 0) =
     Inr (''--- SOURCE [1] ---'' @ block_body t1 u1 c1 @
          ''--- SOURCE [3] ---'' @ block_body t3 u3 c3 @
          ''--- SOURCE [5] ---'' @ block_body t5 u5 c5, 3)"
    using assms(5,7,9,15-23) usable
    by (simp add: evidence_block_def source_label_def digit_char_def)
  show ?thesis
    using assms(1) tops
    by (simp add: gather_evidence_def Let_def reads combine
        del: issue_reads.simps combine_reads.simps)
qed

theorem evidence_keeps_ordinals_witness:
  "search_reply found_services (search_url sample_runtime found_services ''Is coffee healthy?'') =
     Fulfilled (JObj [(''data'', JArr six_sources)]) \<and>
   opt_prop ''data'' (JObj [(''data'', JArr six_sources)]) = JArr six_sources \<and>
   take 5 six_sources =
     [source ''A'' ''https://a.example'', source ''B'' ''https://b.example'',
      source ''C'' ''https://c.example'', source ''D'' ''https://d.example'',
      source ''E'' ''https://e.example''] \<and>
   \<not> list_ex nullish
     [source ''A'' ''https://a.example'', source ''B'' ''https://b.example'',
      source ''C'' ''https://c.example'', source ''D'' ''https://d.example'',
      source ''E'' ''https://e.example''] \<and>
   to_string sample_runtime (get_prop ''url'' (source ''A'' ''https://a.example'')) =
     Some ''https://a.example'' \<and>
   to_string sample_runtime (get_prop ''url'' (source ''B'' ''https://b.example'')) =
     Some ''https://b.example'' \<and>
   to_string sample_runtime (get_prop ''url'' (source ''C'' ''https://c.example'')) =
     Some ''https://c.example'' \<and>
   to_string sample_runtime (get_prop ''url'' (source ''D'' ''https://d.example'')) =
     Some ''https://d.example'' \<and>
   to_string sample_runtime (get_prop ''url'' (source ''E'' ''https://e.example'')) =
     Some ''https://e.example'' \<and>
   reader_reply found_services 0 (JINA_READER_API @ ''https://a.example'') =
     Fulfilled (page ''page of https://r.jina.ai/https://a.example'') \<and>
   reader_reply found_services 1 (JINA_READER_API @ ''https://b.example'') =
     Rejected ''Network error or failed request: timeout'' \<and>
   reader_reply found_services 2 (JINA_READER_API @ ''https://c.example'') =
     Fulfilled (page ''page of https://r.jina.ai/https://c.example'') \<and>
   reader_reply found_services 3 (JINA_READER_API @ ''https://d.example'') =
     Rejected ''Network error or failed request: timeout'' \<and>
   reader_reply found_services 4 (JINA_READER_API @ ''https://e.example'') =
     Fulfilled (page ''page of https://r.jina.ai/https://e.example'') \<and>
   truthy (read_content (page ''page of https://r.jina.ai/https://a.example'')) \<and>
   truthy (read_content (page ''page of https://r.jina.ai/https://c.example'')) \<and>
   truthy (read_content (page ''page of https://r.jina.ai/https://e.example'')) \<and>
   to_string sample_runtime (get_prop ''title'' (source ''A'' ''https://a.example'')) = Some ''A'' \<and>
   to_string sample_runtime (get_prop ''title'' (source ''C'' ''https://c.example'')) = Some ''C'' \<and>
   to_string sample_runtime (get_prop ''title'' (source ''E'' ''https://e.example'')) = Some ''E'' \<and>
   to_string sample_runtime (read_content (page ''page of https://r.jina.ai/https://a.example'')) =
     Some ''page of https://r.jina.ai/https://a.example'' \<and>
   to_string sample_runtime (read_content (page ''page of https://r.jina.ai/https://c.example'')) =
     Some ''page of https://r.jina.ai/https://c.example'' \<and>
   to_string sample_runtime (read_content (page ''page of https://r.jina.ai/https://e.example'')) =
     Some ''page of https://r.jina.ai/https://e.example'' \<and>
   g_result (gather_evidence sample_runtime found_services ''Is coffee healthy?'') =
     Inr (''--- SOURCE [1] ---'' @ nl @ ''Title: A'' @ nl @ ''URL: https://a.example'' @ nl @ nl @
          ''page of https://r.jina.ai/https://a.example'' @ nl @ nl @
          ''--- SOURCE [3] ---'' @ nl @ ''Title: C'' @ nl @ ''URL: https://c.example'' @ nl @ nl @
          ''page of https://r.jina.ai/https://c.example'' @ nl @ nl @
          ''--- SOURCE [5] ---'' @ nl @ ''Title: E'' @ nl @ ''URL: https://e.example'' @ nl @ nl @
          ''page of https://r.jina.ai/https://e.example'' @ nl @ nl)"
proof -
  have h1: "search_reply found_services (search_url sample_runtime found_services ''Is coffee healthy?'') =
      Fulfilled (JObj [(''data'', JArr six_sources)])"
    by code_simp
  have h2: "opt_prop ''data'' (JObj [(''data'', JArr six_sources)]) = JArr six_sources"
    by code_simp
  have h3: "take 5 six_sources =
      [source ''A'' ''https://a.example'', source ''B'' ''https://b.example'',
       source ''C'' ''https://c.example'', source ''D'' ''https://d.example'',
       source ''E'' ''https://e.example'']"
    by code_simp
  have h4: "\<not> list_ex nullish
      [source ''A'' ''https://a.example'', source ''B'' ''https://b.example'',
       source ''C'' ''https://c.example'', source ''D'' ''https://d.example'',
       source ''E'' ''https://e.example'']"
    by code_simp
  have u1: "to_string sample_runtime (get_prop ''url'' (source ''A'' ''https://a.example'')) =
      Some ''https://a.example''"
    by code_simp
  have u2: "to_string sample_runtime (get_prop ''url'' (source ''B'' ''https://b.example'')) =
      Some ''https://b.example''"
    by code_simp
  have u3: "to_string sample_runtime (get_prop ''url'' (source ''C'' ''https://c.example'')) =
      Some ''https://c.example''"
    by code_simp
  have u4: "to_string sample_runtime (get_prop ''url'' (source ''D'' ''https://d.example'')) =
      Some ''https://d.example''"
    by code_simp
  have u5: "to_string sample_runtime (get_prop ''url'' (source ''E'' ''https://e.example'')) =
      Some ''https://e.example''"
    by code_simp
  have r1: "reader_reply found_services 0 (JINA_READER_API @ ''https://a.example'') =
      Fulfilled (page ''page of https://r.jina.ai/https://a.example'')"
    by code_simp
  have r2: "reader_reply found_services 1 (JINA_READER_API @ ''https://b.example'') =
      Rejected ''Network error or failed request: timeout''"
    by code_simp
  have r3: "reader_reply found_services 2 (JINA_READER_API @ ''https://c.example'') =
      Fulfilled (page ''page of https://r.jina.ai/https://c.example'')"
    by code_simp
  have r4: "reader_reply found_services 3 (JINA_READER_API @ ''https://d.example'') =
      Rejected ''Network error or failed request: timeout''"
    by code_simp
  have r5: "reader_reply found_services 4 (JINA_READER_API @ ''https://e.example'') =
      Fulfilled (page ''page of https://r.jina.ai/https://e.example'')"
    by code_simp
  have n1: "truthy (read_content (page ''page of https://r.jina.ai/https://a.example''))"
    by code_simp
  have n3: "truthy (read_content (page ''page of https://r.jina.ai/https://c.example''))"
    by code_simp
  have n5: "truthy (read_content (page ''page of https://r.jina.ai/https://e.example''))"
    by code_simp
  have t1: "to_string sample_runtime (get_prop ''title'' (source ''A'' ''https://a.example'')) = Some ''A''"
    by code_simp
  have t3: "to_string sample_runtime (get_prop ''title'' (source ''C'' ''https://c.example'')) = Some ''C''"
    by code_simp
  have t5: "to_string sample_runtime (get_prop ''title'' (source ''E'' ''https://e.example'')) = Some ''E''"
    by code_simp
  have c1: "to_string sample_runtime (read_content (page ''page of https://r.jina.ai/https://a.example'')) =
      Some ''page of https://r.jina.ai/https://a.example''"
    by code_simp
  have c3: "to_string sample_runtime (read_content (page ''page of https://r.jina.ai/https://c.example'')) =
      Some ''page of https://r.jina.ai/https://c.example''"
    by code_simp
  have c5: "to_string sample_runtime (read_content (page ''page of https://r.jina.ai/https://e.example'')) =
      Some ''page of https://r.jina.ai/https://e.example''"
    by code_simp
  have v: "g_result (gather_evidence sample_runtime found_services ''Is coffee healthy?'') =
      Inr (''--- SOURCE [1] ---'' @ nl @ ''Title: A'' @ nl @ ''URL: https://a.example'' @ nl @ nl @
           ''page of https://r.jina.ai/https://a.example'' @ nl @ nl @
           ''--- SOURCE [3] ---'' @ nl @ ''Title: C'' @ nl @ ''URL: https://c.example'' @ nl @ nl @
           ''page of https://r.jina.ai/https://c.example'' @ nl @ nl @
           ''--- SOURCE [5] ---'' @ nl @ ''Title: E'' @ nl @ ''URL: https://e.example'' @ nl @ nl @
           ''page of https://r.jina.ai/https://e.example'' @ nl @ nl)"
    using evidence_keeps_ordinals [OF h1 h2 h3 h4 u1 u2 u3 u4 u5 r1 r2 r3 r4 r5 n1 n3 n5 t1 t3 t5 c1 c3 c5]
    by (simp add: block_body_def)
  show ?thesis
    by (intro conjI h1 h2 h3 h4 u1 u2 u3 u4 u5 r1 r2 r3 r4 r5 n1 n3 n5 t1 t3 t5 c1 c3 c5 v)
qed

text \<open>
  C5. In a run that starts (a query that is not blank, no run in progress), when the
  search response has no data field, a data field that is not an array, or an empty
  array, the run ends with the assistant message of the error of line 128
  (\<open>NoSourcesError\<close>) and has issued the optimizer request and the search request only:
  no read request, no chat request.
\<close>

theorem no_sources_no_reads:
  assumes "js_trim (initialQuery st) \<noteq> []" and "\<not> isLoading st"
    and "search_reply sv (search_url rt sv (initialQuery st)) = Fulfilled searchResponse"
    and "\<forall>ds. opt_prop ''data'' searchResponse = JArr ds \<longrightarrow> ds = []"
  shows "snd (handleInitialSubmit rt sv st) =
       [OptimizeRequest (initialQuery st), SearchRequest (search_url rt sv (initialQuery st))] \<and>
     messages (fst (handleInitialSubmit rt sv st)) =
       [\<lparr>role = User, content = initialQuery st\<rparr>, research_error no_sources_message] \<and>
     \<not> isLoading (fst (handleInitialSubmit rt sv st))"
proof -
  have "top_sources searchResponse = Inl (Error no_sources_message)"
    using assms(4) by (auto simp: top_sources_def split: jsval.splits)
  then have g: "gather_evidence rt sv (initialQuery st) =
      \<lparr>g_requests = [OptimizeRequest (initialQuery st),
          SearchRequest (search_url rt sv (initialQuery st))],
        g_sources = [], g_result = Inl (Error no_sources_message)\<rparr>"
    using assms(3) by (simp add: gather_evidence_def Let_def)
  show ?thesis
    using assms(1,2) by (simp add: handleInitialSubmit_def Let_def g message_of_def resetState_def)
qed

theorem no_sources_no_reads_witness:
  "js_trim (initialQuery (fresh_app ''Is coffee healthy?'')) \<noteq> [] \<and>
   \<not> isLoading (fresh_app ''Is coffee healthy?'') \<and>
   search_reply empty_services
     (search_url sample_runtime empty_services (initialQuery (fresh_app ''Is coffee healthy?''))) =
     Fulfilled (JObj [(''data'', JArr [])]) \<and>
   opt_prop ''data'' (JObj [(''data'', JArr [])]) = JArr [] \<and>
   snd (handleInitialSubmit sample_runtime empty_services (fresh_app ''Is coffee healthy?'')) =
     [OptimizeRequest ''Is coffee healthy?'',
      SearchRequest ''https://s.jina.ai/coffee%20health%20effects''] \<and>
   messages (fst (handleInitialSubmit sample_runtime empty_services
       (fresh_app ''Is coffee healthy?''))) =
     [\<lparr>role = User, content = ''Is coffee healthy?''\<rparr>, research_error no_sources_message] \<and>
   \<not> isLoading (fst (handleInitialSubmit sample_runtime empty_services
       (fresh_app ''Is coffee healthy?'')))"
proof -
  have h1: "js_trim (initialQuery (fresh_app ''Is coffee healthy?'')) \<noteq> []"
    by code_simp
  have h2: "\<not> isLoading (fresh_app ''Is coffee healthy?'')"
    by code_simp
  have h3: "search_reply empty_services
     (search_url sample_runtime empty_services (initialQuery (fresh_app ''Is coffee healthy?''))) =
     Fulfilled (JObj [(''data'', JArr [])])"
    by code_simp
  have h4: "opt_prop ''data'' (JObj [(''data'', JArr [])]) = JArr []"
    by code_simp
  have h5: "\<forall>ds. opt_prop ''data'' (JObj [(''data'', JArr [])]) = JArr ds \<longrightarrow> ds = []"
    by (simp add: h4)
  have q: "initialQuery (fresh_app ''Is coffee healthy?'') = ''Is coffee healthy?''"
    by (simp add: fresh_app_def)
  have u: "search_url sample_runtime empty_services ''Is coffee healthy?'' =
      ''https://s.jina.ai/coffee%20health%20effects''"
    by code_simp
  note r = no_sources_no_reads [OF h1 h2 h3 h5, unfolded q u]
  show ?thesis
    by (intro conjI h1 h2 h3 h4 r [THEN conjunct1] r [THEN conjunct2, THEN conjunct1]
        r [THEN conjunct2, THEN conjunct2])
qed

text \<open>
  C6, as stated, fails. In the first run the search yields three results, the second of
  them \<^verbatim>\<open>null\<close>; in the second run it yields two sources, the second with a URL that
  cannot be converted to a string. In both the only read issued gives an empty content,
  so every read fails or gives no content; but \<^verbatim>\<open>source.url\<close>, or the template literal
  of line 135, raises a TypeError in the \<^verbatim>\<open>map\<close>, and the run ends with the message of
  that error, not with the one of line 156.
\<close>

theorem unreadable_sources_error_counterexample:
  "reader_reply null_source_services 0 ''https://r.jina.ai/https://a.example'' =
     Fulfilled (page []) \<and>
   read_content (page []) = JStr [] \<and>
   g_result (gather_evidence sample_runtime null_source_services ''Is coffee healthy?'') =
     Inl (TypeError NullProperty) \<and>
   snd (handleInitialSubmit sample_runtime null_source_services
       (fresh_app ''Is coffee healthy?'')) =
     [OptimizeRequest ''Is coffee healthy?'',
      SearchRequest ''https://s.jina.ai/coffee%20health%20effects'',
      ReadRequest ''https://r.jina.ai/https://a.example''] \<and>
   messages (fst (handleInitialSubmit sample_runtime null_source_services
       (fresh_app ''Is coffee healthy?''))) =
     [\<lparr>role = User, content = ''Is coffee healthy?''\<rparr>,
      research_error ''Cannot read properties of null''] \<and>
   g_result (gather_evidence sample_runtime odd_url_services ''Is coffee healthy?'') =
     Inl (TypeError NotPrimitive) \<and>
   snd (handleInitialSubmit sample_runtime odd_url_services
       (fresh_app ''Is coffee healthy?'')) =
     [OptimizeRequest ''Is coffee healthy?'',
      SearchRequest ''https://s.jina.ai/coffee%20health%20effects'',
      ReadRequest ''https://r.jina.ai/https://a.example''] \<and>
   messages (fst (handleInitialSubmit sample_runtime odd_url_services
       (fresh_app ''Is coffee healthy?''))) =
     [\<lparr>role = User, content = ''Is coffee healthy?''\<rparr>,
      research_error ''Cannot convert object to primitive value''] \<and>
   research_error ''Cannot read properties of null'' \<noteq>
     research_error no_readable_content_message \<and>
   research_error ''Cannot convert object to primitive value'' \<noteq>
     research_error no_readable_content_message"
  by code_simp

text \<open>
  C6, amended. In a run that starts, when the search response yields at least one
  source, each of the first five is a value other than \<^verbatim>\<open>null\<close> with a URL that
  converts to a string (\<open>urls\<close> are the addresses of their reads), and every one of
  these reads either fails or gives no content, the run ends with the assistant message
  of the error of line 156 (\<open>NoReadableContentError\<close>), after these reads and without a
  chat request; and that message differs from the one of \<open>NoSourcesError\<close>.
\<close>

theorem unreadable_sources_error:
  assumes "js_trim (initialQuery st) \<noteq> []" and "\<not> isLoading st"
    and "search_reply sv (search_url rt sv (initialQuery st)) = Fulfilled searchResponse"
    and "opt_prop ''data'' searchResponse = JArr ds" and "ds \<noteq> []"
    and "map (reader_url rt) (take 5 ds) = map Inr urls"
    and "\<forall>i < length urls. \<forall>v.
           reader_reply sv i (urls ! i) = Fulfilled v \<longrightarrow> \<not> truthy (read_content v)"
  shows "messages (fst (handleInitialSubmit rt sv st)) =
       [\<lparr>role = User, content = initialQuery st\<rparr>,
        research_error no_readable_content_message] \<and>
     snd (handleInitialSubmit rt sv st) =
       [OptimizeRequest (initialQuery st), SearchRequest (search_url rt sv (initialQuery st))] @
       map ReadRequest urls \<and>
     research_error no_readable_content_message \<noteq> research_error no_sources_message"
proof -
  let ?tops = "take 5 ds"
  let ?results = "map (\<lambda>(k, url). reader_reply sv k url) (enumerate 0 urls)"
  have tops: "top_sources searchResponse = Inr ?tops"
    using assms(4,5) by (simp add: top_sources_def)
  have reads: "issue_reads rt sv 0 ?tops = (map ReadRequest urls, Inr ?results)"
    by (rule issue_reads_all [OF assms(6)])
  have "length ?tops = length urls"
    using assms(6) by (metis length_map)
  then have "\<forall>(source, result) \<in> set (zip ?tops ?results).
      \<forall>v. result = Fulfilled v \<longrightarrow> \<not> truthy (read_content v)"
    using assms(7) by (auto simp: set_zip nth_enumerate_eq)
  then have combine: "combine_reads rt 0 (zip ?tops ?results) ([], 0) = Inr ([], 0)"
    by (rule combine_reads_unusable)
  have g: "gather_evidence rt sv (initialQuery st) =
      \<lparr>g_requests = [OptimizeRequest (initialQuery st),
          SearchRequest (search_url rt sv (initialQuery st))] @ map ReadRequest urls,
        g_sources = ?tops, g_result = Inl (Error no_readable_content_message)\<rparr>"
    using assms(3) tops
    by (simp add: gather_evidence_def Let_def reads combine
        del: issue_reads.simps combine_reads.simps)
  have distinct: "research_error no_readable_content_message \<noteq> research_error no_sources_message"
    by (simp add: research_error_def no_readable_content_message_def no_sources_message_def)
  show ?thesis
    using assms(1,2) distinct
    by (simp add: handleInitialSubmit_def Let_def g message_of_def resetState_def)
qed

theorem unreadable_sources_error_witness:
  "js_trim (initialQuery (fresh_app ''Is coffee healthy?'')) \<noteq> [] \<and>
   \<not> isLoading (fresh_app ''Is coffee healthy?'') \<and>
   search_reply unreadable_services
     (search_url sample_runtime unreadable_services
        (initialQuery (fresh_app ''Is coffee healthy?''))) =
     Fulfilled (JObj [(''data'', JArr six_sources)]) \<and>
   opt_prop ''data'' (JObj [(''data'', JArr six_sources)]) = JArr six_sources \<and>
   six_sources \<noteq> [] \<and>
   map (reader_url sample_runtime) (take 5 six_sources) =
     map Inr [''https://r.jina.ai/https://a.example'', ''https://r.jina.ai/https://b.example'',
       ''https://r.jina.ai/https://c.example'', ''https://r.jina.ai/https://d.example'',
       ''https://r.jina.ai/https://e.example''] \<and>
   list_all (\<lambda>(i, url). case reader_reply unreadable_services i url of
       Rejected reason \<Rightarrow> True
     | Fulfilled v \<Rightarrow> \<not> truthy (read_content v))
     (enumerate 0 [''https://r.jina.ai/https://a.example'', ''https://r.jina.ai/https://b.example'',
       ''https://r.jina.ai/https://c.example'', ''https://r.jina.ai/https://d.example'',
       ''https://r.jina.ai/https://e.example'']) \<and>
   messages (fst (handleInitialSubmit sample_runtime unreadable_services
       (fresh_app ''Is coffee healthy?''))) =
     [\<lparr>role = User, content = ''Is coffee healthy?''\<rparr>,
      research_error no_readable_content_message] \<and>
   snd (handleInitialSubmit sample_runtime unreadable_services (fresh_app ''Is coffee healthy?'')) =
     [OptimizeRequest ''Is coffee healthy?'',
      SearchRequest ''https://s.jina.ai/coffee%20health%20effects'',
      ReadRequest ''https://r.jina.ai/https://a.example'',
      ReadRequest ''https://r.jina.ai/https://b.example'',
      ReadRequest ''https://r.jina.ai/https://c.example'',
      ReadRequest ''https://r.jina.ai/https://d.example'',
      ReadRequest ''https://r.jina.ai/https://e.example''] \<and>
   research_error no_readable_content_message \<noteq> research_error no_sources_message"
proof -
  let ?urls = "[''https://r.jina.ai/https://a.example'', ''https://r.jina.ai/https://b.example'',
       ''https://r.jina.ai/https://c.example'', ''https://r.jina.ai/https://d.example'',
       ''https://r.jina.ai/https://e.example'']"
  have h1: "js_trim (initialQuery (fresh_app ''Is coffee healthy?'')) \<noteq> []"
    by code_simp
  have h2: "\<not> isLoading (fresh_app ''Is coffee healthy?'')"
    by code_simp
  have h3: "search_reply unreadable_services
     (search_url sample_runtime unreadable_services
        (initialQuery (fresh_app ''Is coffee healthy?''))) =
     Fulfilled (JObj [(''data'', JArr six_sources)])"
    by code_simp
  have h4: "opt_prop ''data'' (JObj [(''data'', JArr six_sources)]) = JArr six_sources"
    by code_simp
  have h5: "six_sources \<noteq> []"
    by code_simp
  have h6: "map (reader_url sample_runtime) (take 5 six_sources) = map Inr ?urls"
    by code_simp
  have h7: "list_all (\<lambda>(i, url). case reader_reply unreadable_services i url of
       Rejected reason \<Rightarrow> True
     | Fulfilled v \<Rightarrow> \<not> truthy (read_content v)) (enumerate 0 ?urls)"
    by code_simp
  have h8: "\<forall>i < length ?urls. \<forall>v.
      reader_reply unreadable_services i (?urls ! i) = Fulfilled v \<longrightarrow>
      \<not> truthy (read_content v)"
  proof (intro allI impI)
    fix i v
    assume i: "i < length ?urls"
      and eq: "reader_reply unreadable_services i (?urls ! i) = Fulfilled v"
    from i have "(i, ?urls ! i) \<in> set (enumerate 0 ?urls)"
      by (simp only: in_set_enumerate_eq) simp
    with h7 have "case (i, ?urls ! i) of (i, url) \<Rightarrow>
        (case reader_reply unreadable_services i url of
           Rejected reason \<Rightarrow> True
         | Fulfilled v \<Rightarrow> \<not> truthy (read_content v))"
      unfolding list_all_iff by (rule bspec)
    with eq show "\<not> truthy (read_content v)"
      by simp
  qed
  have q: "initialQuery (fresh_app ''Is coffee healthy?'') = ''Is coffee healthy?''"
    by (simp add: fresh_app_def)
  have u: "search_url sample_runtime unreadable_services ''Is coffee healthy?'' =
      ''https://s.jina.ai/coffee%20health%20effects''"
    by code_simp
  have m: "map ReadRequest ?urls =
     [ReadRequest ''https://r.jina.ai/https://a.example'',
      ReadRequest ''https://r.jina.ai/https://b.example'',
      ReadRequest ''https://r.jina.ai/https://c.example'',
      ReadRequest ''https://r.jina.ai/https://d.example'',
      ReadRequest ''https://r.jina.ai/https://e.example'']"
    by simp
  note r = unreadable_sources_error [OF h1 h2 h3 h4 h5 h6 h8, unfolded q u m append.simps]
  show ?thesis
    by (intro conjI h1 h2 h3 h4 h5 h6 h7 r [THEN conjunct1] r [THEN conjunct2, THEN conjunct1]
        r [THEN conjunct2, THEN conjunct2])
qed

end
